theory Spec2Isabelle
  imports Complex_Main "HOL-Library.Word" "HOL-Library.AList" "HOL-Library.Sublist"
begin

section \<open>Strings\<close>

text \<open>
  Python strings are modelled as \<open>string\<close> (lists of 8-bit characters). Case folding
  (\<open>str.lower\<close>, \<open>re.IGNORECASE\<close>) is modelled on the ASCII letters: \<open>A\<close>..\<open>Z\<close> map
  to \<open>a\<close>..\<open>z\<close>, every other character is left as it is.
\<close>

definition lower_char :: "char \<Rightarrow> char" where
  "lower_char c =
     (case map_of (zip ''ABCDEFGHIJKLMNOPQRSTUVWXYZ'' ''abcdefghijklmnopqrstuvwxyz'') c of
        Some d \<Rightarrow> d
      | None \<Rightarrow> c)"

definition lower :: "string \<Rightarrow> string" where
  "lower s = map lower_char s"

text \<open>Python's \<open>a in b\<close> on strings: \<open>a\<close> occurs in \<open>b\<close> as a contiguous run.\<close>

definition str_in :: "string \<Rightarrow> string \<Rightarrow> bool" where
  "str_in a b = sublist a b"

section \<open>sensitive.py\<close>

text \<open>
  \<^verbatim>\<open>_SENSITIVE_PATTERNS = re.compile(r"(password|passwd|card|cvv|ssn|credit|secret|token)", re.IGNORECASE)\<close>
  is an alternation of literal words. \<open>ci_prefix p s\<close>: the literal \<open>p\<close> matches at the
  start of \<open>s\<close>, characters compared without regard to case. \<open>re_search\<close> is
  \<open>pattern.search\<close>: it tries every start position of the text, from the left, and every
  alternative there.
\<close>

fun ci_prefix :: "string \<Rightarrow> string \<Rightarrow> bool" where
  "ci_prefix [] s = True"
| "ci_prefix (p # ps) [] = False"
| "ci_prefix (p # ps) (c # cs) = (lower_char p = lower_char c \<and> ci_prefix ps cs)"

fun re_search :: "string list \<Rightarrow> string \<Rightarrow> bool" where
  "re_search alts [] = list_ex (\<lambda>p. ci_prefix p []) alts"
| "re_search alts (c # cs) = (list_ex (\<lambda>p. ci_prefix p (c # cs)) alts \<or> re_search alts cs)"

definition SENSITIVE_PATTERNS :: "string list" where
  "SENSITIVE_PATTERNS =
     [''password'', ''passwd'', ''card'', ''cvv'', ''ssn'', ''credit'', ''secret'', ''token'']"

definition REDACTED :: string where
  "REDACTED = ''[REDACTED]''"

definition is_sensitive_selector :: "string \<Rightarrow> bool" where
  "is_sensitive_selector selector = re_search SENSITIVE_PATTERNS selector"

definition redact_if_needed :: "string \<Rightarrow> string \<Rightarrow> bool \<Rightarrow> string" where
  "redact_if_needed v selector sensitive =
     (if sensitive \<or> is_sensitive_selector selector then REDACTED else v)"

section \<open>The telemetry and driver collaborators\<close>

text \<open>
  The tracer, the spans it hands out, the logger and the browser page are collaborators
  of the package. A span is modelled by what the package does to it: the attributes
  written (in the order written, the ones given at creation first), the calls of
  \<open>set_status\<close>, the exceptions recorded and the number of times it was ended.
  Exceptions are instances of Python's \<open>Exception\<close>: a class name and the text that
  \<open>str\<close> returns.
\<close>

datatype attr_value = AStr string | AInt int | ABool bool | ANum real

datatype exn = Exn (exn_class: string) (exn_message: string)

definition str_exn :: "exn \<Rightarrow> string" where
  "str_exn e = exn_message e"

datatype status_code = OK | ERROR

record span_context =
  trace_id :: "128 word"
  span_id :: "64 word"

type_synonym ctx = "span_context option"

record span =
  span_name :: string
  get_span_context :: span_context
  parent :: ctx
  attributes :: "(string \<times> attr_value) list"
  statuses :: "(status_code \<times> string option) list"
  recorded_exceptions :: "exn list"
  ends :: nat

definition set_attribute :: "span \<Rightarrow> string \<Rightarrow> attr_value \<Rightarrow> span" where
  "set_attribute sp k v = sp\<lparr>attributes := attributes sp @ [(k, v)]\<rparr>"

definition set_status :: "span \<Rightarrow> status_code \<Rightarrow> string option \<Rightarrow> span" where
  "set_status sp c d = sp\<lparr>statuses := statuses sp @ [(c, d)]\<rparr>"

definition record_exception :: "span \<Rightarrow> exn \<Rightarrow> span" where
  "record_exception sp e = sp\<lparr>recorded_exceptions := recorded_exceptions sp @ [e]\<rparr>"

text \<open>The value a span carries for a key: the last one written.\<close>

definition attribute :: "span \<Rightarrow> string \<Rightarrow> attr_value option" where
  "attribute sp k = map_of (rev (attributes sp)) k"

text \<open>
  The tracer chooses identifiers; here as arbitrary functions of the number of spans
  started so far. A span started under a parent context is in the parent's trace.
\<close>

record tracer =
  new_trace_id :: "nat \<Rightarrow> 128 word"
  new_span_id :: "nat \<Rightarrow> 64 word"

datatype log_level = LOG_ERROR

record log_record =
  log_logger :: string
  log_level :: log_level
  log_msg :: string
  log_args :: "string list"

text \<open>
  Calls made on the browser driver and on the export pipeline, with their arguments.
\<close>

datatype call =
    Goto string string
  | Evaluate
  | ClickCall string
  | FillCall string string
  | WaitForSelector string string int
  | TextContent
  | QuerySelectorAll string
  | PlaywrightStart
  | Launch string bool
  | NewContext int int
  | NewPage
  | BrowserClose
  | PlaywrightStop
  | ForceFlushSpans
  | ForceFlushLogs

text \<open>
  The page: \<open>'p\<close> is the state of the browser page, \<open>'e\<close> an element handle. Every
  operation may raise and may change the page. \<open>page_evaluate\<close> is the evaluation of the
  navigation-timing script of \<open>navigate\<close>, which returns null or an object.
\<close>

record ('p, 'e) driver =
  page_url :: "'p \<Rightarrow> string"
  page_goto :: "string \<Rightarrow> 'p \<Rightarrow> (exn + int option) \<times> 'p"
  page_evaluate :: "'p \<Rightarrow> (exn + (string \<times> real) list option) \<times> 'p"
  page_click :: "string \<Rightarrow> 'p \<Rightarrow> (exn + unit) \<times> 'p"
  page_fill :: "string \<Rightarrow> string \<Rightarrow> 'p \<Rightarrow> (exn + unit) \<times> 'p"
  page_wait_for_selector :: "string \<Rightarrow> 'p \<Rightarrow> (exn + 'e) \<times> 'p"
  element_text_content :: "'e \<Rightarrow> 'p \<Rightarrow> (exn + string) \<times> 'p"
  page_query_selector_all :: "string \<Rightarrow> 'p \<Rightarrow> (exn + 'e list) \<times> 'p"

section \<open>config.py\<close>

record smokeshow_config =
  service_name :: string
  suite_name :: string
  base_url :: string
  otlp_endpoint :: string
  otlp_insecure :: bool
  environment :: string
  trigger :: string
  browser_type :: string
  headless :: bool
  viewport_width :: int
  viewport_height :: int

text \<open>\<open>os.environ.get(key, default)\<close>.\<close>

definition environ_get :: "(string \<rightharpoonup> string) \<Rightarrow> string \<Rightarrow> string \<Rightarrow> string" where
  "environ_get env k d = (case env k of None \<Rightarrow> d | Some v \<Rightarrow> v)"

definition post_init :: "(string \<rightharpoonup> string) \<Rightarrow> smokeshow_config \<Rightarrow> smokeshow_config" where
  "post_init env c0 =
     (let c1 = (if service_name c0 = [] then
                  c0\<lparr>service_name := environ_get env ''OTEL_SERVICE_NAME'' ''playwright-otel''\<rparr>
                else c0);
          c2 = (if otlp_endpoint c1 = [] then
                  c1\<lparr>otlp_endpoint :=
                       environ_get env ''OTEL_EXPORTER_OTLP_ENDPOINT'' ''http://localhost:4317''\<rparr>
                else c1);
          c3 = (if environment c2 = [] then
                  c2\<lparr>environment := environ_get env ''PLAYWRIGHT_OTEL_ENVIRONMENT'' ''development''\<rparr>
                else c2);
          c4 = (if trigger c3 = [] then
                  c3\<lparr>trigger := environ_get env ''PLAYWRIGHT_OTEL_TRIGGER'' ''manual''\<rparr>
                else c3);
          c5 = (if browser_type c4 = [] then
                  c4\<lparr>browser_type := environ_get env ''PLAYWRIGHT_OTEL_BROWSER'' ''chromium''\<rparr>
                else c4)
      in case env ''PLAYWRIGHT_OTEL_HEADLESS'' of
           None \<Rightarrow> c5
         | Some headless_env \<Rightarrow>
             if headless c5 then
               c5\<lparr>headless := lower headless_env \<notin> set [''false'', ''0'', ''no'']\<rparr>
             else c5)"

text \<open>
  The keyword arguments of a constructor call: \<open>None\<close> for an argument the caller does
  not pass, which then takes the default of the signature.
\<close>

record kwargs =
  kw_service_name :: "string option"
  kw_suite_name :: "string option"
  kw_base_url :: "string option"
  kw_otlp_endpoint :: "string option"
  kw_otlp_insecure :: "bool option"
  kw_environment :: "string option"
  kw_trigger :: "string option"
  kw_browser_type :: "string option"
  kw_headless :: "bool option"
  kw_viewport_width :: "int option"
  kw_viewport_height :: "int option"

definition no_kwargs :: kwargs where
  "no_kwargs = \<lparr>kw_service_name = None, kw_suite_name = None, kw_base_url = None,
     kw_otlp_endpoint = None, kw_otlp_insecure = None, kw_environment = None,
     kw_trigger = None, kw_browser_type = None, kw_headless = None,
     kw_viewport_width = None, kw_viewport_height = None\<rparr>"

definition arg_or :: "'a option \<Rightarrow> 'a \<Rightarrow> 'a" where
  "arg_or a d = (case a of None \<Rightarrow> d | Some v \<Rightarrow> v)"

text \<open>
  \<open>SmokeshowConfig(**kw)\<close>: the dataclass constructor binds the fields, with the
  defaults of the field declarations, and runs \<open>__post_init__\<close>.
  \<open>InstrumentedBrowser(**kw)\<close> has the same keyword arguments with the same defaults and
  passes every one of them on.
\<close>

definition SmokeshowConfig :: "(string \<rightharpoonup> string) \<Rightarrow> kwargs \<Rightarrow> smokeshow_config" where
  "SmokeshowConfig env kw =
     post_init env
       \<lparr>service_name = arg_or (kw_service_name kw) [],
        suite_name = arg_or (kw_suite_name kw) [],
        base_url = arg_or (kw_base_url kw) [],
        otlp_endpoint = arg_or (kw_otlp_endpoint kw) [],
        otlp_insecure = arg_or (kw_otlp_insecure kw) True,
        environment = arg_or (kw_environment kw) [],
        trigger = arg_or (kw_trigger kw) [],
        browser_type = arg_or (kw_browser_type kw) [],
        headless = arg_or (kw_headless kw) True,
        viewport_width = arg_or (kw_viewport_width kw) 1280,
        viewport_height = arg_or (kw_viewport_height kw) 720\<rparr>"

section \<open>The state of a run\<close>

text \<open>
  Everything the package mutates: the page, the calls made so far, the number of spans
  started, the spans ended (in the order they ended, as an exporter sees them), the log
  records emitted, and the fields of the \<open>InstrumentedBrowser\<close> object.
\<close>

record 'p world =
  page :: 'p
  calls :: "call list"
  started :: nat
  finished :: "span list"
  log_records :: "log_record list"
  config :: smokeshow_config
  logger :: "string option"
  suite_span :: "span option"
  suite_ctx :: ctx
  passed :: int
  failed :: int
  total :: int

definition start_span ::
  "tracer \<Rightarrow> string \<Rightarrow> ctx \<Rightarrow> (string \<times> attr_value) list \<Rightarrow> 'p world \<Rightarrow> span \<times> 'p world" where
  "start_span tr name context attrs w =
     (\<lparr>span_name = name,
       get_span_context =
         \<lparr>trace_id = (case context of None \<Rightarrow> new_trace_id tr (started w) | Some c \<Rightarrow> trace_id c),
          span_id = new_span_id tr (started w)\<rparr>,
       parent = context,
       attributes = attrs,
       statuses = [],
       recorded_exceptions = [],
       ends = 0\<rparr>,
      w\<lparr>started := started w + 1\<rparr>)"

definition end_span :: "span \<Rightarrow> 'p world \<Rightarrow> 'p world" where
  "end_span sp w = w\<lparr>finished := finished w @ [sp\<lparr>ends := ends sp + 1\<rparr>]\<rparr>"

text \<open>
  \<open>with cm as span: body\<close> for a span context manager: the span is started, the body
  runs on it, and the span is ended on the way out whether the body returned or raised;
  an exception of the body goes on to the caller.
\<close>

definition with_span ::
  "span \<times> 'p world \<Rightarrow> (span \<Rightarrow> 'p world \<Rightarrow> (exn + unit) \<times> span \<times> 'p world) \<Rightarrow>
   (exn + unit) \<times> 'p world" where
  "with_span cm body =
     (case cm of (sp, w) \<Rightarrow>
        (case body sp w of (r, sp', w') \<Rightarrow> (r, end_span sp' w')))"

text \<open>The driver operations as the package calls them, each call logged.\<close>

definition goto :: "('p, 'e) driver \<Rightarrow> string \<Rightarrow> 'p world \<Rightarrow> (exn + int option) \<times> 'p world" where
  "goto D u w =
     (case page_goto D u (page w) of
        (r, p') \<Rightarrow> (r, w\<lparr>page := p', calls := calls w @ [Goto u ''domcontentloaded'']\<rparr>))"

definition evaluate ::
  "('p, 'e) driver \<Rightarrow> 'p world \<Rightarrow> (exn + (string \<times> real) list option) \<times> 'p world" where
  "evaluate D w =
     (case page_evaluate D (page w) of
        (r, p') \<Rightarrow> (r, w\<lparr>page := p', calls := calls w @ [Evaluate]\<rparr>))"

definition click_call :: "('p, 'e) driver \<Rightarrow> string \<Rightarrow> 'p world \<Rightarrow> (exn + unit) \<times> 'p world" where
  "click_call D sel w =
     (case page_click D sel (page w) of
        (r, p') \<Rightarrow> (r, w\<lparr>page := p', calls := calls w @ [ClickCall sel]\<rparr>))"

definition fill_call ::
  "('p, 'e) driver \<Rightarrow> string \<Rightarrow> string \<Rightarrow> 'p world \<Rightarrow> (exn + unit) \<times> 'p world" where
  "fill_call D sel v w =
     (case page_fill D sel v (page w) of
        (r, p') \<Rightarrow> (r, w\<lparr>page := p', calls := calls w @ [FillCall sel v]\<rparr>))"

definition wait_for_selector ::
  "('p, 'e) driver \<Rightarrow> string \<Rightarrow> 'p world \<Rightarrow> (exn + 'e) \<times> 'p world" where
  "wait_for_selector D sel w =
     (case page_wait_for_selector D sel (page w) of
        (r, p') \<Rightarrow> (r, w\<lparr>page := p', calls := calls w @ [WaitForSelector sel ''visible'' 5000]\<rparr>))"

definition text_content :: "('p, 'e) driver \<Rightarrow> 'e \<Rightarrow> 'p world \<Rightarrow> (exn + string) \<times> 'p world" where
  "text_content D el w =
     (case element_text_content D el (page w) of
        (r, p') \<Rightarrow> (r, w\<lparr>page := p', calls := calls w @ [TextContent]\<rparr>))"

definition query_selector_all ::
  "('p, 'e) driver \<Rightarrow> string \<Rightarrow> 'p world \<Rightarrow> (exn + 'e list) \<times> 'p world" where
  "query_selector_all D sel w =
     (case page_query_selector_all D sel (page w) of
        (r, p') \<Rightarrow> (r, w\<lparr>page := p', calls := calls w @ [QuerySelectorAll sel]\<rparr>))"

section \<open>spans.py\<close>

text \<open>
  \<open>if selector\<close>: \<open>None\<close> and the empty string are both false. \<open>attrs.update(extra_attrs)\<close>
  is the dictionary update: a key already present keeps its place and takes the new
  value, a new key goes to the end.
\<close>

fun selector_given :: "string option \<Rightarrow> string option" where
  "selector_given None = None"
| "selector_given (Some s) = (if s = [] then None else Some s)"

definition dict_update ::
  "(string \<times> attr_value) list \<Rightarrow> (string \<times> attr_value) list \<Rightarrow> (string \<times> attr_value) list" where
  "dict_update attrs extra = fold (\<lambda>(k, v). AList.update k v) extra attrs"

definition action_attrs ::
  "string \<Rightarrow> string option \<Rightarrow> (string \<times> attr_value) list \<Rightarrow> (string \<times> attr_value) list" where
  "action_attrs action_type selector extra_attrs =
     (let attrs = [(''test.action.type'', AStr action_type)];
          attrs' = (case selector_given selector of
                      None \<Rightarrow> attrs
                    | Some s \<Rightarrow> AList.update ''test.action.selector'' (AStr s) attrs)
      in dict_update attrs' extra_attrs)"

definition action_span ::
  "tracer \<Rightarrow> ctx \<Rightarrow> string \<Rightarrow> string option \<Rightarrow> (string \<times> attr_value) list \<Rightarrow> 'p world \<Rightarrow>
   span \<times> 'p world" where
  "action_span tr parent_ctx action_type selector extra_attrs w =
     (let name = (case selector_given selector of
                    None \<Rightarrow> action_type
                  | Some s \<Rightarrow> action_type @ ''('' @ s @ '')'')
      in start_span tr name parent_ctx (action_attrs action_type selector extra_attrs) w)"

section \<open>Python's \<open>str\<close> on integers\<close>

definition digit_char :: "nat \<Rightarrow> char" where
  "digit_char d = ''0123456789abcdef'' ! d"

function str_nat :: "nat \<Rightarrow> string" where
  "str_nat n = (if n < 10 then [digit_char n] else str_nat (n div 10) @ [digit_char (n mod 10)])"
  by pat_completeness auto
termination
  by (relation "measure id") auto

declare str_nat.simps [simp del]

definition str_int :: "int \<Rightarrow> string" where
  "str_int i = (if i < 0 then ''-'' @ str_nat (nat (- i)) else str_nat (nat i))"

section \<open>actions.py\<close>

definition sq :: string where
  "sq = [CHR 0x27]"

text \<open>
  The \<open>try\<close> block of \<open>navigate\<close>. The script's object is a dictionary; \<open>timing[key]\<close>
  raises \<open>KeyError\<close> for a missing key. Every exception inside the block is swallowed
  (\<open>except Exception: pass\<close>), which leaves the attributes written so far.
\<close>

fun set_timing_attrs :: "(string \<times> string) list \<Rightarrow> (string \<times> real) list \<Rightarrow> span \<Rightarrow> span" where
  "set_timing_attrs [] timing sp = sp"
| "set_timing_attrs ((a, k) # rest) timing sp =
     (case map_of timing k of
        None \<Rightarrow> sp
      | Some v \<Rightarrow> set_timing_attrs rest timing (set_attribute sp a (ANum v)))"

definition timing_keys :: "(string \<times> string) list" where
  "timing_keys =
     [(''test.navigation.dom_content_loaded_ms'', ''domContentLoaded''),
      (''test.navigation.load_event_ms'', ''loadEvent''),
      (''test.navigation.transfer_size_bytes'', ''transferSize''),
      (''test.navigation.dom_interactive_ms'', ''domInteractive'')]"

definition collect_timing :: "('p, 'e) driver \<Rightarrow> span \<Rightarrow> 'p world \<Rightarrow> span \<times> 'p world" where
  "collect_timing D sp w =
     (case evaluate D w of
        (Inl e, w1) \<Rightarrow> (sp, w1)
      | (Inr None, w1) \<Rightarrow> (sp, w1)
      | (Inr (Some timing), w1) \<Rightarrow>
          (if timing = [] then sp else set_timing_attrs timing_keys timing sp, w1))"

definition navigate ::
  "('p, 'e) driver \<Rightarrow> tracer \<Rightarrow> ctx \<Rightarrow> string \<Rightarrow> 'p world \<Rightarrow> (exn + unit) \<times> 'p world" where
  "navigate D tr c u w0 =
     with_span (action_span tr c ''navigate'' None [(''test.action.target_url'', AStr u)] w0)
       (\<lambda>sp w.
          let sp1 = set_attribute sp ''test.action.page_url'' (AStr (page_url D (page w))) in
          case goto D u w of
            (Inl e, w1) \<Rightarrow> (Inl e, sp1, w1)
          | (Inr response, w1) \<Rightarrow>
              let sp2 = (case response of
                             None \<Rightarrow> sp1
                           | Some status \<Rightarrow>
                               set_attribute sp1 ''test.navigation.response_status'' (AInt status))
              in case collect_timing D sp2 w1 of
                   (sp3, w2) \<Rightarrow> (Inr (), set_status sp3 OK None, w2))"

definition click ::
  "('p, 'e) driver \<Rightarrow> tracer \<Rightarrow> ctx \<Rightarrow> string \<Rightarrow> 'p world \<Rightarrow> (exn + unit) \<times> 'p world" where
  "click D tr c selector w0 =
     with_span (action_span tr c ''click'' (Some selector) [] w0)
       (\<lambda>sp w.
          let sp1 = set_attribute sp ''test.action.page_url'' (AStr (page_url D (page w))) in
          case click_call D selector w of
            (Inl e, w1) \<Rightarrow> (Inl e, sp1, w1)
          | (Inr _, w1) \<Rightarrow> (Inr (), set_status sp1 OK None, w1))"

definition fill ::
  "('p, 'e) driver \<Rightarrow> tracer \<Rightarrow> ctx \<Rightarrow> string \<Rightarrow> string \<Rightarrow> bool \<Rightarrow> 'p world \<Rightarrow>
   (exn + unit) \<times> 'p world" where
  "fill D tr c selector v sensitive w0 =
     with_span (action_span tr c ''fill'' (Some selector) [] w0)
       (\<lambda>sp w.
          let sp1 = set_attribute sp ''test.action.page_url'' (AStr (page_url D (page w)));
              redacted = redact_if_needed v selector sensitive;
              sp2 = set_attribute sp1 ''test.action.input_value'' (AStr redacted)
          in case fill_call D selector v w of
               (Inl e, w1) \<Rightarrow> (Inl e, sp2, w1)
             | (Inr _, w1) \<Rightarrow> (Inr (), set_status sp2 OK None, w1))"

definition assert_visible ::
  "('p, 'e) driver \<Rightarrow> tracer \<Rightarrow> ctx \<Rightarrow> string \<Rightarrow> 'p world \<Rightarrow> (exn + unit) \<times> 'p world" where
  "assert_visible D tr c selector w0 =
     with_span (action_span tr c ''assert_visible'' (Some selector) [] w0)
       (\<lambda>sp w.
          let sp1 = set_attribute sp ''test.action.page_url'' (AStr (page_url D (page w))) in
          case wait_for_selector D selector w of
            (Inl e, w1) \<Rightarrow> (Inl e, sp1, w1)
          | (Inr _, w1) \<Rightarrow>
              (Inr (),
               set_status (set_attribute sp1 ''test.action.result'' (AStr ''success'')) OK None,
               w1))"

definition assert_text_message :: "string \<Rightarrow> string \<Rightarrow> string" where
  "assert_text_message expected text =
     ''Expected '' @ sq @ expected @ sq @ '' in '' @ sq @ text @ sq"

definition assert_text ::
  "('p, 'e) driver \<Rightarrow> tracer \<Rightarrow> ctx \<Rightarrow> string \<Rightarrow> string \<Rightarrow> 'p world \<Rightarrow>
   (exn + unit) \<times> 'p world" where
  "assert_text D tr c selector expected w0 =
     with_span (action_span tr c ''assert_text'' (Some selector) [] w0)
       (\<lambda>sp w.
          let sp1 = set_attribute sp ''test.action.page_url'' (AStr (page_url D (page w))) in
          case wait_for_selector D selector w of
            (Inl e, w1) \<Rightarrow> (Inl e, sp1, w1)
          | (Inr element, w1) \<Rightarrow>
              (case text_content D element w1 of
                 (Inl e, w2) \<Rightarrow> (Inl e, sp1, w2)
               | (Inr text, w2) \<Rightarrow>
                   if str_in (lower expected) (lower text) then
                     (Inr (),
                      set_status (set_attribute sp1 ''test.action.result'' (AStr ''success'')) OK None,
                      w2)
                   else
                     (Inl (Exn ''AssertionError'' (assert_text_message expected text)),
                      set_status (set_attribute sp1 ''test.action.result'' (AStr ''failed''))
                        ERROR (Some (assert_text_message expected text)),
                      w2)))"

definition assert_count_status_message :: "int \<Rightarrow> nat \<Rightarrow> string" where
  "assert_count_status_message expected_count actual =
     ''Expected '' @ str_int expected_count @ '' elements, got '' @ str_nat actual"

definition assert_count_message :: "int \<Rightarrow> string \<Rightarrow> nat \<Rightarrow> string" where
  "assert_count_message expected_count selector actual =
     ''Expected '' @ str_int expected_count @ '' elements matching '' @ sq @ selector @ sq
       @ '', got '' @ str_nat actual"

definition assert_count ::
  "('p, 'e) driver \<Rightarrow> tracer \<Rightarrow> ctx \<Rightarrow> string \<Rightarrow> int \<Rightarrow> 'p world \<Rightarrow>
   (exn + unit) \<times> 'p world" where
  "assert_count D tr c selector expected_count w0 =
     with_span (action_span tr c ''assert_count'' (Some selector) [] w0)
       (\<lambda>sp w.
          let sp1 = set_attribute sp ''test.action.page_url'' (AStr (page_url D (page w))) in
          case query_selector_all D selector w of
            (Inl e, w1) \<Rightarrow> (Inl e, sp1, w1)
          | (Inr elements, w1) \<Rightarrow>
              let actual = length elements;
                  sp2 = set_attribute sp1 ''test.action.result''
                          (AStr (if int actual = expected_count then ''success'' else ''failed''))
              in if int actual = expected_count then
                   (Inr (), set_status sp2 OK None, w1)
                 else
                   (Inl (Exn ''AssertionError'' (assert_count_message expected_count selector actual)),
                    set_status sp2 ERROR (Some (assert_count_status_message expected_count actual)),
                    w1))"

definition assert_url ::
  "('p, 'e) driver \<Rightarrow> tracer \<Rightarrow> ctx \<Rightarrow> string \<Rightarrow> 'p world \<Rightarrow> (exn + unit) \<times> 'p world" where
  "assert_url D tr c pattern w0 =
     with_span (action_span tr c ''assert_url'' None [] w0)
       (\<lambda>sp w.
          let sp1 = set_attribute sp ''test.action.page_url'' (AStr (page_url D (page w))) in
          if str_in pattern (page_url D (page w)) then
            (Inr (),
             set_status (set_attribute sp1 ''test.action.result'' (AStr ''success'')) OK None,
             w)
          else
            (Inl (Exn ''AssertionError''
                    (''Expected '' @ sq @ pattern @ sq @ '' in URL, got '' @ page_url D (page w))),
             set_status (set_attribute sp1 ''test.action.result'' (AStr ''failed''))
               ERROR
               (Some (''Expected '' @ sq @ pattern @ sq @ '' in URL '' @ sq @ page_url D (page w) @ sq)),
             w))"

text \<open>The seven instrumented actions, as a test body invokes them.\<close>

datatype action =
    Navigate string
  | Click string
  | Fill string string bool
  | AssertVisible string
  | AssertText string string
  | AssertCount string int
  | AssertUrl string

fun perform ::
  "('p, 'e) driver \<Rightarrow> tracer \<Rightarrow> ctx \<Rightarrow> action \<Rightarrow> 'p world \<Rightarrow> (exn + unit) \<times> 'p world" where
  "perform D tr c (Navigate u) w = navigate D tr c u w"
| "perform D tr c (Click selector) w = click D tr c selector w"
| "perform D tr c (Fill selector v sensitive) w = fill D tr c selector v sensitive w"
| "perform D tr c (AssertVisible selector) w = assert_visible D tr c selector w"
| "perform D tr c (AssertText selector expected) w = assert_text D tr c selector expected w"
| "perform D tr c (AssertCount selector expected_count) w =
     assert_count D tr c selector expected_count w"
| "perform D tr c (AssertUrl pattern) w = assert_url D tr c pattern w"

section \<open>test_case.py\<close>

text \<open>\<open>format(n, "0Wx")\<close>: lower-case hexadecimal, padded with zeros on the left to width \<open>W\<close>.\<close>

function hex_nat :: "nat \<Rightarrow> string" where
  "hex_nat n = (if n < 16 then [digit_char n] else hex_nat (n div 16) @ [digit_char (n mod 16)])"
  by pat_completeness auto
termination
  by (relation "measure id") auto

declare hex_nat.simps [simp del]

definition format_0x :: "nat \<Rightarrow> nat \<Rightarrow> string" where
  "format_0x width n = replicate (width - length (hex_nat n)) CHR ''0'' @ hex_nat n"

text \<open>
  A \<open>TestCase\<close> object. The tracer, the page and the result callback it holds are
  arguments of the functions below. \<open>tc_actions\<close> is the \<open>ActionInstrumentor\<close>, given by
  the context it is bound to; it and the case span are \<open>None\<close> until the case is entered.
\<close>

record test_case =
  tc_suite_ctx :: ctx
  tc_logger :: "string option"
  tc_suite_name :: string
  tc_name :: string
  tc_case_id :: string
  tc_tags :: string
  tc_description :: string
  tc_case_span :: "span option"
  tc_case_ctx :: ctx
  tc_actions :: "ctx option"

definition TestCase ::
  "ctx \<Rightarrow> string option \<Rightarrow> string \<Rightarrow> string \<Rightarrow> string \<Rightarrow> string \<Rightarrow> string \<Rightarrow> test_case" where
  "TestCase suite_context lg suite name case_id tags description =
     \<lparr>tc_suite_ctx = suite_context, tc_logger = lg, tc_suite_name = suite, tc_name = name,
      tc_case_id = case_id, tc_tags = tags, tc_description = description,
      tc_case_span = None, tc_case_ctx = None, tc_actions = None\<rparr>"

definition attribute_error :: "string \<Rightarrow> exn" where
  "attribute_error name =
     Exn ''AttributeError''
       (sq @ ''NoneType'' @ sq @ '' object has no attribute '' @ sq @ name @ sq)"

definition TestCase_aenter :: "tracer \<Rightarrow> test_case \<Rightarrow> 'p world \<Rightarrow> test_case \<times> 'p world" where
  "TestCase_aenter tr tc w =
     (let attrs0 = [(''test.case.name'', AStr (tc_name tc))];
          attrs1 = (if tc_case_id tc \<noteq> [] then
                      AList.update ''test.case.id'' (AStr (tc_case_id tc)) attrs0
                    else attrs0);
          attrs2 = (if tc_tags tc \<noteq> [] then
                      AList.update ''test.case.tags'' (AStr (tc_tags tc)) attrs1
                    else attrs1);
          attrs3 = (if tc_description tc \<noteq> [] then
                      AList.update ''test.case.description'' (AStr (tc_description tc)) attrs2
                    else attrs2)
      in case start_span tr (''test('' @ [CHR 0x22] @ tc_name tc @ [CHR 0x22] @ '')'')
                (tc_suite_ctx tc) attrs3 w of
           (sp, w1) \<Rightarrow>
             (tc\<lparr>tc_case_span := Some sp,
                 tc_case_ctx := Some (get_span_context sp),
                 tc_actions := Some (Some (get_span_context sp))\<rparr>,
              w1))"

text \<open>
  The message of the error log: the template and the arguments handed to
  \<open>logger.error\<close>. The dash of the template is U+2014, three bytes in UTF-8.
\<close>

definition FAILED_TEMPLATE :: string where
  "FAILED_TEMPLATE =
     ''Test case FAILED: %s [%s] '' @ [CHR 0xE2, CHR 0x80, CHR 0x94]
       @ '' %s (url=%s, trace_id=%s, span_id=%s)''"

definition TestCase_aexit ::
  "('p, 'e) driver \<Rightarrow> (bool \<Rightarrow> 'p world \<Rightarrow> 'p world) \<Rightarrow> test_case \<Rightarrow> exn option \<Rightarrow> 'p world \<Rightarrow>
   (exn + bool) \<times> test_case \<times> 'p world" where
  "TestCase_aexit D record_result_fn tc exc_val w =
     (case tc_case_span tc of
        None \<Rightarrow> (Inl (attribute_error ''set_attribute''), tc, w)
      | Some sp \<Rightarrow>
          (case
             (case exc_val of
                Some e \<Rightarrow>
                  let sp1 = set_attribute sp ''test.case.result'' (AStr ''failed'');
                      sp2 = set_attribute sp1 ''test.case.failure_reason'' (AStr (str_exn e));
                      sp3 = set_attribute sp2 ''test.case.failure_url'' (AStr (page_url D (page w)));
                      sp4 = set_status sp3 ERROR (Some (str_exn e));
                      sp5 = record_exception sp4 e;
                      w1 = record_result_fn False w
                  in (case tc_logger tc of
                        None \<Rightarrow> (sp5, w1)
                      | Some lg \<Rightarrow>
                          let trace_id_s = format_0x 32 (unat (trace_id (get_span_context sp5)));
                              span_id_s = format_0x 16 (unat (span_id (get_span_context sp5)));
                              case_label = (if tc_case_id tc \<noteq> [] then tc_case_id tc else tc_name tc)
                          in (sp5,
                              w1\<lparr>log_records := log_records w1 @
                                   [\<lparr>log_logger = lg, log_level = LOG_ERROR,
                                     log_msg = FAILED_TEMPLATE,
                                     log_args = [case_label, tc_suite_name tc, str_exn e,
                                                 page_url D (page w1), trace_id_s, span_id_s]\<rparr>]\<rparr>))
              | None \<Rightarrow>
                  let sp1 = set_attribute sp ''test.case.result'' (AStr ''passed'');
                      sp2 = set_status sp1 OK None
                  in (sp2, record_result_fn True w))
           of (sp', w') \<Rightarrow>
             (Inr False, tc\<lparr>tc_case_span := Some (sp'\<lparr>ends := ends sp' + 1\<rparr>)\<rparr>, end_span sp' w')))"

text \<open>
  What a test body does with the case object: the seven actions, the two escape hatches
  (a custom attribute on the case span, a custom action span, here with an empty block),
  and raising. A body is a sequence of such steps and stops at the first exception.
\<close>

datatype step =
    Act action
  | SetAttribute string attr_value
  | CustomSpan string "string option" "(string \<times> attr_value) list"
  | Raise exn

fun action_method :: "action \<Rightarrow> string" where
  "action_method (Navigate u) = ''navigate''"
| "action_method (Click selector) = ''click''"
| "action_method (Fill selector v sensitive) = ''fill''"
| "action_method (AssertVisible selector) = ''assert_visible''"
| "action_method (AssertText selector expected) = ''assert_text''"
| "action_method (AssertCount selector expected_count) = ''assert_count''"
| "action_method (AssertUrl pattern) = ''assert_url''"

fun run_step ::
  "('p, 'e) driver \<Rightarrow> tracer \<Rightarrow> step \<Rightarrow> test_case \<Rightarrow> 'p world \<Rightarrow>
   (exn + unit) \<times> test_case \<times> 'p world" where
  "run_step D tr (Act a) tc w =
     (case tc_actions tc of
        None \<Rightarrow> (Inl (attribute_error (action_method a)), tc, w)
      | Some c \<Rightarrow> (case perform D tr c a w of (r, w1) \<Rightarrow> (r, tc, w1)))"
| "run_step D tr (SetAttribute k v) tc w =
     (case tc_case_span tc of
        None \<Rightarrow> (Inl (attribute_error ''set_attribute''), tc, w)
      | Some sp \<Rightarrow> (Inr (), tc\<lparr>tc_case_span := Some (set_attribute sp k v)\<rparr>, w))"
| "run_step D tr (CustomSpan action_type selector extra_attrs) tc w =
     (case with_span (action_span tr (tc_case_ctx tc) action_type selector extra_attrs w)
             (\<lambda>sp w1. (Inr (), sp, w1)) of
        (r, w2) \<Rightarrow> (r, tc, w2))"
| "run_step D tr (Raise e) tc w = (Inl e, tc, w)"

fun run_body ::
  "('p, 'e) driver \<Rightarrow> tracer \<Rightarrow> step list \<Rightarrow> test_case \<Rightarrow> 'p world \<Rightarrow>
   (exn + unit) \<times> test_case \<times> 'p world" where
  "run_body D tr [] tc w = (Inr (), tc, w)"
| "run_body D tr (s # ss) tc w =
     (case run_step D tr s tc w of
        (Inl e, tc1, w1) \<Rightarrow> (Inl e, tc1, w1)
      | (Inr _, tc1, w1) \<Rightarrow> run_body D tr ss tc1 w1)"

text \<open>
  \<open>async with tc as t: body\<close>: enter, run the body, call \<open>__aexit__\<close> with the exception
  of the body (or none). An exception of the body is raised again to the caller unless
  \<open>__aexit__\<close> returns true.
\<close>

definition run_test_case ::
  "('p, 'e) driver \<Rightarrow> tracer \<Rightarrow> (bool \<Rightarrow> 'p world \<Rightarrow> 'p world) \<Rightarrow> test_case \<Rightarrow> step list \<Rightarrow>
   'p world \<Rightarrow> (exn + unit) \<times> test_case \<times> 'p world" where
  "run_test_case D tr record_result_fn tc body w =
     (case TestCase_aenter tr tc w of
        (tc1, w1) \<Rightarrow>
          (case run_body D tr body tc1 w1 of
             (r, tc2, w2) \<Rightarrow>
               (case TestCase_aexit D record_result_fn tc2
                       (case r of Inl e \<Rightarrow> Some e | Inr _ \<Rightarrow> None) w2 of
                  (Inl e', tc3, w3) \<Rightarrow> (Inl e', tc3, w3)
                | (Inr suppress, tc3, w3) \<Rightarrow>
                    (case r of
                       Inl e \<Rightarrow> (if suppress then Inr () else Inl e, tc3, w3)
                     | Inr _ \<Rightarrow> (Inr (), tc3, w3)))))"

section \<open>browser.py\<close>

text \<open>
  \<open>InstrumentedBrowser(**kw)\<close>: binds its keyword arguments, with the defaults of its
  signature, hands every one of them to \<open>SmokeshowConfig\<close> and sets the counters to 0.
  \<open>p\<close> is the page the driver will provide.
\<close>

definition InstrumentedBrowser :: "(string \<rightharpoonup> string) \<Rightarrow> kwargs \<Rightarrow> 'p \<Rightarrow> 'p world" where
  "InstrumentedBrowser env kw p =
     \<lparr>page = p, calls = [], started = 0, finished = [], log_records = [],
      config = SmokeshowConfig env
        \<lparr>kw_service_name = Some (arg_or (kw_service_name kw) []),
         kw_suite_name = Some (arg_or (kw_suite_name kw) []),
         kw_base_url = Some (arg_or (kw_base_url kw) []),
         kw_otlp_endpoint = Some (arg_or (kw_otlp_endpoint kw) []),
         kw_otlp_insecure = Some (arg_or (kw_otlp_insecure kw) True),
         kw_environment = Some (arg_or (kw_environment kw) []),
         kw_trigger = Some (arg_or (kw_trigger kw) []),
         kw_browser_type = Some (arg_or (kw_browser_type kw) []),
         kw_headless = Some (arg_or (kw_headless kw) True),
         kw_viewport_width = Some (arg_or (kw_viewport_width kw) 1280),
         kw_viewport_height = Some (arg_or (kw_viewport_height kw) 720)\<rparr>,
      logger = None, suite_span = None, suite_ctx = None,
      passed = 0, failed = 0, total = 0\<rparr>"

text \<open>
  \<open>__aenter__\<close>. The run identifier, the timestamp and the version-control metadata come
  from outside and are arguments here. The export pipeline and the browser are started;
  their start is taken to succeed.
\<close>

definition InstrumentedBrowser_aenter ::
  "tracer \<Rightarrow> string \<Rightarrow> string \<Rightarrow> (string \<times> attr_value) list \<Rightarrow> 'p world \<Rightarrow> 'p world" where
  "InstrumentedBrowser_aenter tr suite_id timestamp git_info w =
     (let cfg = config w;
          suite_attrs =
            [(''test.suite.name'', AStr (suite_name cfg)),
             (''test.suite.id'', AStr suite_id),
             (''test.run.trigger'', AStr (trigger cfg)),
             (''test.run.timestamp'', AStr timestamp),
             (''test.target.base_url'', AStr (base_url cfg)),
             (''test.target.environment'', AStr (environment cfg)),
             (''test.browser.name'', AStr (browser_type cfg)),
             (''test.browser.headless'', ABool (headless cfg)),
             (''test.viewport.width'', AInt (viewport_width cfg)),
             (''test.viewport.height'', AInt (viewport_height cfg))]
      in case start_span tr (''suite('' @ suite_name cfg @ '')'') None
                (dict_update suite_attrs git_info)
                (w\<lparr>logger := Some ''smokeshow.test_results''\<rparr>) of
           (sp, w1) \<Rightarrow>
             w1\<lparr>suite_span := Some sp,
                suite_ctx := Some (get_span_context sp),
                calls := calls w1 @
                  [PlaywrightStart, Launch (browser_type cfg) (headless cfg),
                   NewContext (viewport_width cfg) (viewport_height cfg), NewPage]\<rparr>)"

definition InstrumentedBrowser_aexit :: "exn option \<Rightarrow> 'p world \<Rightarrow> (exn + bool) \<times> 'p world" where
  "InstrumentedBrowser_aexit exc_val w =
     (case suite_span w of
        None \<Rightarrow> (Inl (attribute_error ''set_attribute''), w)
      | Some sp \<Rightarrow>
          let sp1 = set_attribute sp ''test.suite.total_tests'' (AInt (total w));
              sp2 = set_attribute sp1 ''test.suite.passed'' (AInt (passed w));
              sp3 = set_attribute sp2 ''test.suite.failed'' (AInt (failed w));
              result = (if failed w = 0 then ''passed''
                        else if passed w = 0 then ''failed''
                        else ''partial'');
              sp4 = set_attribute sp3 ''test.suite.result'' (AStr result);
              w1 = end_span sp4 (w\<lparr>suite_span := Some (sp4\<lparr>ends := ends sp4 + 1\<rparr>)\<rparr>)
          in (Inr False,
              w1\<lparr>calls := calls w1 @
                   [BrowserClose, PlaywrightStop, ForceFlushSpans, ForceFlushLogs]\<rparr>))"

definition record_result :: "bool \<Rightarrow> 'p world \<Rightarrow> 'p world" where
  "record_result ok w = (if ok then w\<lparr>passed := passed w + 1\<rparr> else w\<lparr>failed := failed w + 1\<rparr>)"

text \<open>
  \<open>browser.test_case(name=..., ...)\<close>: counts the case, then builds the \<open>TestCase\<close>. The
  logger exists once the browser is entered; before that reading it raises.
\<close>

definition test_case ::
  "string \<Rightarrow> string \<Rightarrow> string \<Rightarrow> string \<Rightarrow> 'p world \<Rightarrow> (exn + test_case) \<times> 'p world" where
  "test_case name case_id tags description w =
     (let w1 = w\<lparr>total := total w + 1\<rparr> in
      case logger w1 of
        None \<Rightarrow>
          (Inl (Exn ''AttributeError''
                  (sq @ ''InstrumentedBrowser'' @ sq @ '' object has no attribute ''
                     @ sq @ ''_logger'' @ sq)),
           w1)
      | Some lg \<Rightarrow>
          (Inr (TestCase (suite_ctx w1) (Some lg) (suite_name (config w1))
                  name case_id tags description),
           w1))"

text \<open>
  A suite body: test cases run one after the other, each created by \<open>test_case\<close> and run
  under \<open>async with\<close>. The caller either catches the failure of a case and goes on
  (\<open>cs_caught\<close>), or lets it end the suite body.
\<close>

record case_spec =
  cs_name :: string
  cs_case_id :: string
  cs_tags :: string
  cs_description :: string
  cs_body :: "step list"
  cs_caught :: bool

fun run_cases ::
  "('p, 'e) driver \<Rightarrow> tracer \<Rightarrow> case_spec list \<Rightarrow> 'p world \<Rightarrow> exn option \<times> 'p world" where
  "run_cases D tr [] w = (None, w)"
| "run_cases D tr (c # cs) w =
     (case test_case (cs_name c) (cs_case_id c) (cs_tags c) (cs_description c) w of
        (Inl e, w1) \<Rightarrow> (Some e, w1)
      | (Inr tc, w1) \<Rightarrow>
          (case run_test_case D tr record_result tc (cs_body c) w1 of
             (Inl e, tc', w2) \<Rightarrow> if cs_caught c then run_cases D tr cs w2 else (Some e, w2)
           | (Inr _, tc', w2) \<Rightarrow> run_cases D tr cs w2))"

text \<open>
  \<open>async with InstrumentedBrowser(**kw) as browser: body\<close>. \<open>__aexit__\<close> returns false, so
  an exception of the body goes on to the caller.
\<close>

definition run_suite ::
  "('p, 'e) driver \<Rightarrow> tracer \<Rightarrow> (string \<rightharpoonup> string) \<Rightarrow> kwargs \<Rightarrow> string \<Rightarrow> string \<Rightarrow>
   (string \<times> attr_value) list \<Rightarrow> case_spec list \<Rightarrow> 'p \<Rightarrow> exn option \<times> 'p world" where
  "run_suite D tr env kw suite_id timestamp git_info cases p =
     (let w1 = InstrumentedBrowser_aenter tr suite_id timestamp git_info
                 (InstrumentedBrowser env kw p)
      in case run_cases D tr cases w1 of
           (exc, w2) \<Rightarrow>
             (case InstrumentedBrowser_aexit exc w2 of
                (Inl e, w3) \<Rightarrow> (Some e, w3)
              | (Inr suppress, w3) \<Rightarrow> (if suppress then None else exc, w3)))"

section \<open>A concrete page, tracer and entered browser\<close>

text \<open>
  The page of the test fixtures: it stays where it is told to go, answers 200, shows one
  element with the text \<open>Hello World\<close> and has no navigation timing.
\<close>


definition mock_page :: "(string, unit) driver" where
  "mock_page =
     \<lparr>page_url = (\<lambda>p. p),
      page_goto = (\<lambda>u p. (Inr (Some 200), u)),
      page_evaluate = (\<lambda>p. (Inr None, p)),
      page_click = (\<lambda>selector p. (Inr (), p)),
      page_fill = (\<lambda>selector v p. (Inr (), p)),
      page_wait_for_selector = (\<lambda>selector p. (Inr (), p)),
      element_text_content = (\<lambda>element p. (Inr ''Hello World'', p)),
      page_query_selector_all = (\<lambda>selector p. (Inr [], p))\<rparr>"

definition mock_tracer :: tracer where
  "mock_tracer = \<lparr>new_trace_id = (\<lambda>n. 1), new_span_id = (\<lambda>n. of_nat n + 1)\<rparr>"

definition mock_world :: "string world" where
  "mock_world =
     InstrumentedBrowser_aenter mock_tracer ''run-1'' ''2024-01-01T00:00:00+00:00'' []
       (InstrumentedBrowser Map.empty (no_kwargs\<lparr>kw_suite_name := Some ''smoke''\<rparr>)
          ''http://localhost:8080/'')"

section \<open>The arguments each action gives to \<open>action_span\<close>\<close>

fun action_selector :: "action \<Rightarrow> string option" where
  "action_selector (Navigate u) = None"
| "action_selector (Click selector) = Some selector"
| "action_selector (Fill selector v sensitive) = Some selector"
| "action_selector (AssertVisible selector) = Some selector"
| "action_selector (AssertText selector expected) = Some selector"
| "action_selector (AssertCount selector expected_count) = Some selector"
| "action_selector (AssertUrl pattern) = None"

fun action_extra :: "action \<Rightarrow> (string \<times> attr_value) list" where
  "action_extra (Navigate u) = [(''test.action.target_url'', AStr u)]"
| "action_extra a = []"

section \<open>Redaction: regular-expression search against substring containment\<close>

lemma ci_prefix_iff:
  "ci_prefix p s \<longleftrightarrow> (\<exists>mid post. s = mid @ post \<and> lower mid = lower p)"
proof (induction p s rule: ci_prefix.induct)
  case (1 s)
  then show ?case by (simp add: lower_def)
next
  case (2 p ps)
  then show ?case by (simp add: lower_def)
next
  case (3 p ps c cs)
  show ?case
  proof
    assume "ci_prefix (p # ps) (c # cs)"
    with 3 obtain mid post
      where "cs = mid @ post" "lower mid = lower ps" "lower_char p = lower_char c"
      by auto
    then have "c # cs = (c # mid) @ post \<and> lower (c # mid) = lower (p # ps)"
      by (simp add: lower_def)
    then show "\<exists>mid post. c # cs = mid @ post \<and> lower mid = lower (p # ps)" by blast
  next
    assume "\<exists>mid post. c # cs = mid @ post \<and> lower mid = lower (p # ps)"
    then obtain mid post where m: "c # cs = mid @ post" "lower mid = lower (p # ps)"
      by blast
    then obtain m ms where mm: "mid = m # ms"
      by (cases mid) (auto simp: lower_def)
    with m have "m = c" "cs = ms @ post" "lower_char c = lower_char p" "lower ms = lower ps"
      by (auto simp: lower_def)
    with 3 show "ci_prefix (p # ps) (c # cs)" by auto
  qed
qed

lemma re_search_iff:
  "re_search alts s \<longleftrightarrow> (\<exists>p\<in>set alts. \<exists>pre rest. s = pre @ rest \<and> ci_prefix p rest)"
proof (induction s)
  case Nil
  then show ?case by (auto simp: list_ex_iff)
next
  case (Cons c cs)
  show ?case
  proof
    assume "re_search alts (c # cs)"
    then consider "list_ex (\<lambda>p. ci_prefix p (c # cs)) alts" | "re_search alts cs"
      by auto
    then show "\<exists>p\<in>set alts. \<exists>pre rest. c # cs = pre @ rest \<and> ci_prefix p rest"
    proof cases
      case 1
      then obtain p where p: "p \<in> set alts" "ci_prefix p (c # cs)"
        by (auto simp: list_ex_iff)
      then have "c # cs = [] @ (c # cs) \<and> ci_prefix p (c # cs)" by simp
      with p(1) show ?thesis by blast
    next
      case 2
      with Cons obtain p pre rest where p: "p \<in> set alts" "cs = pre @ rest" "ci_prefix p rest"
        by blast
      then have "c # cs = (c # pre) @ rest \<and> ci_prefix p rest" by simp
      with p(1) show ?thesis by blast
    qed
  next
    assume "\<exists>p\<in>set alts. \<exists>pre rest. c # cs = pre @ rest \<and> ci_prefix p rest"
    then obtain p pre rest
      where h: "p \<in> set alts" "c # cs = pre @ rest" "ci_prefix p rest"
      by blast
    show "re_search alts (c # cs)"
    proof (cases pre)
      case Nil
      with h show ?thesis by (auto simp: list_ex_iff)
    next
      case (Cons a pre')
      with h have "cs = pre' @ rest" by simp
      with h Cons.IH have "re_search alts cs" by blast
      then show ?thesis by simp
    qed
  qed
qed

lemma lower_SENSITIVE_PATTERNS: "p \<in> set SENSITIVE_PATTERNS \<Longrightarrow> lower p = p"
proof -
  have "list_all (\<lambda>p. lower p = p) SENSITIVE_PATTERNS" by code_simp
  then show "p \<in> set SENSITIVE_PATTERNS \<Longrightarrow> lower p = p"
    by (simp add: list_all_iff)
qed

lemma is_sensitive_selector_iff:
  "is_sensitive_selector selector \<longleftrightarrow>
     (\<exists>p\<in>set SENSITIVE_PATTERNS. \<exists>pre mid post. selector = pre @ mid @ post \<and> lower mid = p)"
proof -
  have "is_sensitive_selector selector \<longleftrightarrow>
      (\<exists>p\<in>set SENSITIVE_PATTERNS. \<exists>pre mid post. selector = pre @ mid @ post \<and> lower mid = lower p)"
    unfolding is_sensitive_selector_def re_search_iff ci_prefix_iff by blast
  then show ?thesis
    using lower_SENSITIVE_PATTERNS by metis
qed

text \<open>
  C3. The redaction decision is true exactly when the explicit flag is true or the
  selector contains one of password, passwd, card, cvv, ssn, credit, secret, token as a
  substring, letters compared without regard to case (some contiguous part \<open>mid\<close> of the
  selector lower-cases to the word). When the decision is true \<open>redact_if_needed\<close>
  returns the fixed sentinel \<open>[REDACTED]\<close>, otherwise the value unchanged. The result is
  a function of the three arguments alone.
\<close>

theorem redact_if_needed_decision:
  "redact_if_needed v selector sensitive =
     (if sensitive \<or>
         (\<exists>p\<in>set [''password'', ''passwd'', ''card'', ''cvv'', ''ssn'', ''credit'', ''secret'', ''token''].
            \<exists>pre mid post. selector = pre @ mid @ post \<and> lower mid = p)
      then ''[REDACTED]'' else v)"
  unfolding redact_if_needed_def is_sensitive_selector_iff REDACTED_def SENSITIVE_PATTERNS_def
  by (rule refl)

section \<open>Spans of the actions\<close>

lemmas span_ops = set_attribute_def set_status_def record_exception_def
lemmas span_cm = with_span_def action_span_def start_span_def end_span_def
lemmas driver_calls = goto_def evaluate_def click_call_def fill_call_def wait_for_selector_def
  text_content_def query_selector_all_def
lemmas action_defs = navigate_def click_def fill_def assert_visible_def assert_text_def
  assert_count_def assert_url_def

lemma dict_update_keys: "fst ` set (dict_update attrs extra) = fst ` set attrs \<union> fst ` set extra"
  unfolding dict_update_def
proof (induction extra arbitrary: attrs)
  case Nil
  then show ?case by simp
next
  case (Cons x extra)
  obtain k v where x: "x = (k, v)" by (cases x)
  have "fst ` set (fold (\<lambda>(k, v). AList.update k v) extra (AList.update k v attrs))
      = fst ` set (AList.update k v attrs) \<union> fst ` set extra"
    by (rule Cons.IH)
  then show ?case by (simp add: x dom_update)
qed

lemma attribute_None_iff: "attribute sp k = None \<longleftrightarrow> k \<notin> fst ` set (attributes sp)"
  by (simp add: attribute_def map_of_eq_None_iff)

lemma attribute_append_miss:
  "k \<notin> fst ` set ws \<Longrightarrow> attributes sp' = attributes sp @ ws \<Longrightarrow> attribute sp' k = attribute sp k"
  by (simp add: attribute_def map_add_def [symmetric] map_add_dom_app_simps(3) dom_map_of_conv_image_fst)

lemma set_timing_attrs_more:
  "\<exists>ws. attributes (set_timing_attrs ks timing sp) = attributes sp @ ws
      \<and> fst ` set ws \<subseteq> fst ` set ks"
proof (induction ks arbitrary: sp)
  case Nil
  then show ?case by simp
next
  case (Cons ak ks)
  obtain a k where ak: "ak = (a, k)" by (cases ak)
  show ?case
  proof (cases "map_of timing k")
    case None
    then show ?thesis by (simp add: ak)
  next
    case (Some v)
    from Cons.IH [of "set_attribute sp a (ANum v)"] obtain ws
      where m: "attributes (set_timing_attrs ks timing (set_attribute sp a (ANum v)))
                  = attributes (set_attribute sp a (ANum v)) @ ws"
        "fst ` set ws \<subseteq> fst ` set ks"
      by blast
    then have "attributes (set_timing_attrs (ak # ks) timing sp) = attributes sp @ ((a, ANum v) # ws)
        \<and> fst ` set ((a, ANum v) # ws) \<subseteq> fst ` set (ak # ks)"
      using Some by (auto simp: ak set_attribute_def)
    then show ?thesis by blast
  qed
qed

lemma collect_timing_more:
  "\<exists>ws. attributes (fst (collect_timing D sp w)) = attributes sp @ ws
      \<and> fst ` set ws \<subseteq> fst ` set timing_keys"
proof -
  obtain r p' where ev: "page_evaluate D (page w) = (r, p')"
    by (cases "page_evaluate D (page w)")
  show ?thesis
  proof (cases r)
    case (Inl e)
    with ev show ?thesis by (simp add: collect_timing_def evaluate_def)
  next
    case (Inr t)
    show ?thesis
    proof (cases t)
      case None
      with ev Inr show ?thesis by (simp add: collect_timing_def evaluate_def)
    next
      case (Some timing)
      with ev Inr show ?thesis
        using set_timing_attrs_more [of timing_keys timing sp]
        by (simp add: collect_timing_def evaluate_def)
    qed
  qed
qed

lemma set_timing_attrs_frame:
  "statuses (set_timing_attrs ks timing sp) = statuses sp
   \<and> ends (set_timing_attrs ks timing sp) = ends sp
   \<and> span_name (set_timing_attrs ks timing sp) = span_name sp
   \<and> recorded_exceptions (set_timing_attrs ks timing sp) = recorded_exceptions sp"
  by (induction ks timing sp rule: set_timing_attrs.induct)
     (auto simp: set_attribute_def split: option.splits)

lemma collect_timing_frame:
  "statuses (fst (collect_timing D sp w)) = statuses sp"
  "ends (fst (collect_timing D sp w)) = ends sp"
  "span_name (fst (collect_timing D sp w)) = span_name sp"
  "finished (snd (collect_timing D sp w)) = finished w"
  by (simp_all add: collect_timing_def evaluate_def set_timing_attrs_frame
        split: prod.splits sum.splits option.splits)

lemma navigate_cases:
  assumes "page_goto D u (page w) = (r, p1)"
  shows "navigate D tr c u w =
     (case r of
        Inl e \<Rightarrow>
          (Inl e,
           end_span (set_attribute (fst (action_span tr c ''navigate'' None [(''test.action.target_url'', AStr u)] w))
                       ''test.action.page_url'' (AStr (page_url D (page w))))
             (w\<lparr>started := started w + 1, page := p1, calls := calls w @ [Goto u ''domcontentloaded'']\<rparr>))
      | Inr response \<Rightarrow>
          (let sp2 = (case response of
                       None \<Rightarrow> (\<lambda>sp. sp)
                     | Some status \<Rightarrow> (\<lambda>sp. set_attribute sp ''test.navigation.response_status'' (AInt status)))
                     (set_attribute (fst (action_span tr c ''navigate'' None [(''test.action.target_url'', AStr u)] w))
                       ''test.action.page_url'' (AStr (page_url D (page w))));
               w1 = w\<lparr>started := started w + 1, page := p1, calls := calls w @ [Goto u ''domcontentloaded'']\<rparr>
           in (Inr (), end_span (set_status (fst (collect_timing D sp2 w1)) OK None)
                         (snd (collect_timing D sp2 w1)))))"
  using assms
  by (cases r)
     (auto simp: navigate_def with_span_def action_span_def start_span_def goto_def Let_def
        split: prod.splits option.splits)


lemma timing_keys_fst:
  "fst ` set timing_keys =
     {''test.navigation.dom_content_loaded_ms'', ''test.navigation.load_event_ms'',
      ''test.navigation.transfer_size_bytes'', ''test.navigation.dom_interactive_ms''}"
  by (simp add: timing_keys_def)

lemma navigate_result:
  "fst (navigate D tr c u w) = (case fst (page_goto D u (page w)) of Inl e \<Rightarrow> Inl e | Inr response \<Rightarrow> Inr ())"
proof -
  obtain r p1 where g: "page_goto D u (page w) = (r, p1)"
    by (cases "page_goto D u (page w)")
  show ?thesis
    unfolding navigate_cases [OF g] by (cases r) (simp_all add: g Let_def)
qed

text \<open>
  C9. When the driver navigation returns and the evaluation of the navigation-timing
  script raises, \<open>navigate\<close> returns normally, its span is ended once with status OK
  set, and none of the four timing attributes is on the span. In every case the result
  of \<open>navigate\<close> is decided by the driver navigation alone: it raises exactly what
  \<open>page.goto\<close> raises and returns normally otherwise.
\<close>

theorem navigate_swallows_timing_failure:
  assumes "page_goto D u (page w) = (Inr response, p1)"
      and "page_evaluate D p1 = (Inl e, p2)"
  shows "fst (navigate D tr c u w) = Inr ()
    \<and> finished (snd (navigate D tr c u w)) = finished w @ [last (finished (snd (navigate D tr c u w)))]
    \<and> statuses (last (finished (snd (navigate D tr c u w)))) = [(OK, None)]
    \<and> ends (last (finished (snd (navigate D tr c u w)))) = 1
    \<and> attribute (last (finished (snd (navigate D tr c u w)))) ''test.navigation.dom_content_loaded_ms'' = None
    \<and> attribute (last (finished (snd (navigate D tr c u w)))) ''test.navigation.load_event_ms'' = None
    \<and> attribute (last (finished (snd (navigate D tr c u w)))) ''test.navigation.transfer_size_bytes'' = None
    \<and> attribute (last (finished (snd (navigate D tr c u w)))) ''test.navigation.dom_interactive_ms'' = None
    \<and> (\<forall>D' w'. fst (navigate D' tr c u w') =
          (case fst (page_goto D' u (page w')) of Inl e' \<Rightarrow> Inl e' | Inr response' \<Rightarrow> Inr ()))"
proof -
  let ?w1 = "w\<lparr>started := started w + 1, page := p1, calls := calls w @ [Goto u ''domcontentloaded'']\<rparr>"
  let ?sp2 = "(case response of
              None \<Rightarrow> (\<lambda>sp. sp)
            | Some status \<Rightarrow> (\<lambda>sp. set_attribute sp ''test.navigation.response_status'' (AInt status)))
             (set_attribute (fst (action_span tr c ''navigate'' None [(''test.action.target_url'', AStr u)] w))
                ''test.action.page_url'' (AStr (page_url D (page w))))"
  have ct: "fst (collect_timing D ?sp2 ?w1) = ?sp2"
    using assms(2) by (simp add: collect_timing_def evaluate_def)
  have fin: "finished (snd (collect_timing D ?sp2 ?w1)) = finished w"
    by (simp add: collect_timing_frame)
  have nav: "fst (navigate D tr c u w) = Inr ()"
      "finished (snd (navigate D tr c u w)) = finished w @ [(set_status ?sp2 OK None)\<lparr>ends := ends ?sp2 + 1\<rparr>]"
    unfolding navigate_cases [OF assms(1)]
    using ct fin by (simp_all add: Let_def end_span_def set_status_def)
  have keys: "attributes (last (finished (snd (navigate D tr c u w)))) =
      [(''test.action.type'', AStr ''navigate''), (''test.action.target_url'', AStr u),
       (''test.action.page_url'', AStr (page_url D (page w)))]
      @ (case response of None \<Rightarrow> [] | Some status \<Rightarrow> [(''test.navigation.response_status'', AInt status)])"
    unfolding nav
    by (cases response)
       (simp_all add: set_status_def set_attribute_def action_span_def start_span_def
          action_attrs_def dict_update_def)
  have none: "attribute (last (finished (snd (navigate D tr c u w)))) k = None"
    if "k \<notin> {''test.action.type'', ''test.action.target_url'', ''test.action.page_url'',
               ''test.navigation.response_status''}" for k
    using that unfolding attribute_None_iff keys by (cases response) auto
  show ?thesis
  proof (intro conjI)
    show "fst (navigate D tr c u w) = Inr ()" by (simp add: nav)
    show "finished (snd (navigate D tr c u w)) = finished w @ [last (finished (snd (navigate D tr c u w)))]"
      by (simp add: nav)
    show "statuses (last (finished (snd (navigate D tr c u w)))) = [(OK, None)]"
      unfolding nav
      by (cases response)
         (simp_all add: set_status_def set_attribute_def action_span_def start_span_def)
    show "ends (last (finished (snd (navigate D tr c u w)))) = 1"
      unfolding nav
      by (cases response)
         (simp_all add: set_status_def set_attribute_def action_span_def start_span_def)
    show "attribute (last (finished (snd (navigate D tr c u w)))) ''test.navigation.dom_content_loaded_ms'' = None"
      by (rule none) simp
    show "attribute (last (finished (snd (navigate D tr c u w)))) ''test.navigation.load_event_ms'' = None"
      by (rule none) simp
    show "attribute (last (finished (snd (navigate D tr c u w)))) ''test.navigation.transfer_size_bytes'' = None"
      by (rule none) simp
    show "attribute (last (finished (snd (navigate D tr c u w)))) ''test.navigation.dom_interactive_ms'' = None"
      by (rule none) simp
    show "\<forall>D' w'. fst (navigate D' tr c u w') =
          (case fst (page_goto D' u (page w')) of Inl e' \<Rightarrow> Inl e' | Inr response' \<Rightarrow> Inr ())"
      by (simp add: navigate_result)
  qed
qed

theorem navigate_swallows_timing_failure_witness:
  "fst (navigate (mock_page\<lparr>page_evaluate := (\<lambda>p. (Inl (Exn ''Error'' ''timing unavailable''), p))\<rparr>)
          mock_tracer None ''http://localhost:8080/'' mock_world) = Inr ()
   \<and> statuses (last (finished (snd (navigate
          (mock_page\<lparr>page_evaluate := (\<lambda>p. (Inl (Exn ''Error'' ''timing unavailable''), p))\<rparr>)
          mock_tracer None ''http://localhost:8080/'' mock_world)))) = [(OK, None)]"
proof -
  let ?D = "mock_page\<lparr>page_evaluate := (\<lambda>p. (Inl (Exn ''Error'' ''timing unavailable''), p))\<rparr>"
  have g: "page_goto ?D ''http://localhost:8080/'' (page mock_world)
             = (Inr (Some 200), ''http://localhost:8080/'')"
    by (simp add: mock_page_def)
  have ev: "page_evaluate ?D ''http://localhost:8080/''
             = (Inl (Exn ''Error'' ''timing unavailable''), ''http://localhost:8080/'')"
    by (simp add: mock_page_def)
  from navigate_swallows_timing_failure [OF g ev, of mock_tracer None] show ?thesis by blast
qed



lemma attribute_written:
  "attributes sp = pre @ (k, v) # rest \<Longrightarrow> k \<notin> fst ` set rest \<Longrightarrow> attribute sp k = Some v"
  by (simp add: attribute_def map_add_def [symmetric] map_add_dom_app_simps(3)
        dom_map_of_conv_image_fst)

lemma navigate_finished:
  "finished (snd (navigate D tr c u w)) = finished w @ [last (finished (snd (navigate D tr c u w)))]"
proof -
  obtain r p1 where g: "page_goto D u (page w) = (r, p1)"
    by (cases "page_goto D u (page w)")
  show ?thesis
    unfolding navigate_cases [OF g]
    by (cases r) (simp_all add: Let_def end_span_def collect_timing_frame)
qed

lemma perform_finished:
  "finished (snd (perform D tr c a w)) = finished w @ [last (finished (snd (perform D tr c a w)))]"
proof (cases a)
  case (Navigate u)
  then show ?thesis using navigate_finished [of D tr c u w] by simp
qed (simp_all add: click_def fill_def assert_visible_def assert_text_def assert_count_def
       assert_url_def span_cm span_ops driver_calls Let_def split: prod.splits sum.splits)

lemma navigate_attrs:
  "\<exists>rest. attributes (last (finished (snd (navigate D tr c u w)))) =
     action_attrs ''navigate'' None [(''test.action.target_url'', AStr u)] @
     (''test.action.page_url'', AStr (page_url D (page w))) # rest
     \<and> ''test.action.page_url'' \<notin> fst ` set rest"
proof -
  obtain r p1 where g: "page_goto D u (page w) = (r, p1)"
    by (cases "page_goto D u (page w)")
  show ?thesis
  proof (cases r)
    case (Inl e)
    then show ?thesis
      unfolding navigate_cases [OF g]
      by (simp add: end_span_def set_attribute_def action_span_def start_span_def)
  next
    case (Inr response)
    let ?w1 = "w\<lparr>started := started w + 1, page := p1, calls := calls w @ [Goto u ''domcontentloaded'']\<rparr>"
    let ?sp1 = "set_attribute (fst (action_span tr c ''navigate'' None [(''test.action.target_url'', AStr u)] w))
                ''test.action.page_url'' (AStr (page_url D (page w)))"
    let ?sp2 = "(case response of
              None \<Rightarrow> (\<lambda>sp. sp)
            | Some status \<Rightarrow> (\<lambda>sp. set_attribute sp ''test.navigation.response_status'' (AInt status))) ?sp1"
    obtain ws where ws: "attributes (fst (collect_timing D ?sp2 ?w1)) = attributes ?sp2 @ ws"
        "fst ` set ws \<subseteq> fst ` set timing_keys"
      using collect_timing_more [of D ?sp2 ?w1] by blast
    have last_eq: "attributes (last (finished (snd (navigate D tr c u w)))) = attributes ?sp2 @ ws"
      unfolding navigate_cases [OF g] using Inr ws(1)
      by (simp add: Let_def end_span_def set_status_def)
    have sp2: "attributes ?sp2 = action_attrs ''navigate'' None [(''test.action.target_url'', AStr u)] @
        (''test.action.page_url'', AStr (page_url D (page w))) #
        (case response of None \<Rightarrow> [] | Some status \<Rightarrow> [(''test.navigation.response_status'', AInt status)])"
      by (cases response) (simp_all add: set_attribute_def action_span_def start_span_def)
    have "''test.action.page_url'' \<notin> fst ` set timing_keys"
      by (simp add: timing_keys_def)
    with ws(2) have "''test.action.page_url'' \<notin> fst ` set
        ((case response of None \<Rightarrow> [] | Some status \<Rightarrow> [(''test.navigation.response_status'', AInt status)]) @ ws)"
      by (cases response) auto
    with last_eq sp2 show ?thesis by auto
  qed
qed

text \<open>
  C8 (as amended). For each of the seven actions, the span of the action is the one
  span it ends. Its attributes start with the ones given when the span is created (the
  action type, the selector when one is given, the target URL for \<open>navigate\<close>); the
  page location follows as \<open>test.action.page_url\<close>, before everything the action
  records afterwards, and nothing written later replaces it. Its value is the location
  of the page in the state in which the action is invoked.
\<close>

theorem page_url_follows_creation_attributes:
  "finished (snd (perform D tr c a w)) = finished w @ [last (finished (snd (perform D tr c a w)))]
   \<and> (\<exists>rest. attributes (last (finished (snd (perform D tr c a w)))) =
          action_attrs (action_method a) (action_selector a) (action_extra a) @
          (''test.action.page_url'', AStr (page_url D (page w))) # rest
        \<and> ''test.action.page_url'' \<notin> fst ` set rest)
   \<and> attribute (last (finished (snd (perform D tr c a w)))) ''test.action.page_url''
        = Some (AStr (page_url D (page w)))"
proof -
  have ex: "\<exists>rest. attributes (last (finished (snd (perform D tr c a w)))) =
          action_attrs (action_method a) (action_selector a) (action_extra a) @
          (''test.action.page_url'', AStr (page_url D (page w))) # rest
        \<and> ''test.action.page_url'' \<notin> fst ` set rest"
  proof (cases a)
    case (Navigate u)
    then show ?thesis using navigate_attrs [of D tr c u w] by simp
  next
    case (Click selector)
    then show ?thesis
      by (simp add: click_def span_cm span_ops driver_calls Let_def
            split: prod.splits sum.splits)
  next
    case (Fill selector v sensitive)
    then show ?thesis
      by (simp add: fill_def span_cm span_ops driver_calls Let_def
            split: prod.splits sum.splits)
  next
    case (AssertVisible selector)
    then show ?thesis
      by (simp add: assert_visible_def span_cm span_ops driver_calls Let_def
            split: prod.splits sum.splits)
  next
    case (AssertText selector expected)
    then show ?thesis
      by (simp add: assert_text_def span_cm span_ops driver_calls Let_def
            split: prod.splits sum.splits)
  next
    case (AssertCount selector expected_count)
    then show ?thesis
      by (simp add: assert_count_def span_cm span_ops driver_calls Let_def
            split: prod.splits sum.splits)
  next
    case (AssertUrl pattern)
    then show ?thesis
      by (simp add: assert_url_def span_cm span_ops driver_calls Let_def
            split: prod.splits sum.splits)
  qed
  then obtain rest where r: "attributes (last (finished (snd (perform D tr c a w)))) =
          action_attrs (action_method a) (action_selector a) (action_extra a) @
          (''test.action.page_url'', AStr (page_url D (page w))) # rest"
        "''test.action.page_url'' \<notin> fst ` set rest"
    by blast
  from attribute_written [OF r] ex perform_finished [of D tr c a w] show ?thesis by blast
qed

text \<open>
  On the fixture page, the span of \<open>navigate\<close> has the action type and the target URL
  recorded before \<open>test.action.page_url\<close>.
\<close>

theorem page_url_not_first_attribute:
  "map fst (attributes (last (finished (snd
      (perform mock_page mock_tracer None (Navigate ''http://localhost:8080/'') mock_world)))))
   = [''test.action.type'', ''test.action.target_url'', ''test.action.page_url'',
      ''test.navigation.response_status'']"
  by code_simp

text \<open>
  After a navigation to another location, the next action records the new location.
\<close>

theorem page_url_follows_creation_attributes_witness:
  "attribute (last (finished (snd (perform mock_page mock_tracer None (Click ''button'')
       (snd (perform mock_page mock_tracer None (Navigate ''http://localhost:8080/next'') mock_world))))))
     ''test.action.page_url'' = Some (AStr ''http://localhost:8080/next'')"
proof -
  have "page_url mock_page (page (snd (perform mock_page mock_tracer None
          (Navigate ''http://localhost:8080/next'') mock_world))) = ''http://localhost:8080/next''"
    by code_simp
  with page_url_follows_creation_attributes [of mock_page mock_tracer None "Click ''button''"
      "snd (perform mock_page mock_tracer None (Navigate ''http://localhost:8080/next'') mock_world)"]
  show ?thesis by simp
qed



lemma attribute_append_hit:
  "attribute (sp\<lparr>attributes := xs @ [(k, v)]\<rparr>) k = Some v"
  by (simp add: attribute_def)

lemma fill_cases:
  assumes "page_fill D selector v (page w) = (r, p')"
  shows "fill D tr c selector v sensitive w =
    (r, end_span
         ((if r = Inr () then (\<lambda>sp. set_status sp OK None) else (\<lambda>sp. sp))
            (set_attribute
              (set_attribute (fst (action_span tr c ''fill'' (Some selector) [] w))
                 ''test.action.page_url'' (AStr (page_url D (page w))))
              ''test.action.input_value'' (AStr (redact_if_needed v selector sensitive))))
         (w\<lparr>started := started w + 1, page := p', calls := calls w @ [FillCall selector v]\<rparr>))"
  using assms
  by (cases r) (simp_all add: fill_def with_span_def action_span_def start_span_def fill_call_def Let_def)

text \<open>
  C4. For every \<open>fill(selector, value, sensitive)\<close>: the span of the action carries
  \<open>test.action.input_value\<close> = the output of \<open>redact_if_needed\<close> (the sentinel when the
  flag is set or the selector is sensitive, the value itself otherwise), and the one call
  made on the driver is \<open>page.fill(selector, value)\<close> with the value as given; the
  result of the action is the result of that call.
\<close>

theorem fill_records_redacted_passes_original:
  "finished (snd (fill D tr c selector v sensitive w))
     = finished w @ [last (finished (snd (fill D tr c selector v sensitive w)))]
   \<and> attribute (last (finished (snd (fill D tr c selector v sensitive w)))) ''test.action.input_value''
       = Some (AStr (redact_if_needed v selector sensitive))
   \<and> redact_if_needed v selector sensitive
       = (if sensitive \<or> is_sensitive_selector selector then ''[REDACTED]'' else v)
   \<and> calls (snd (fill D tr c selector v sensitive w)) = calls w @ [FillCall selector v]
   \<and> page (snd (fill D tr c selector v sensitive w)) = snd (page_fill D selector v (page w))
   \<and> fst (fill D tr c selector v sensitive w) = fst (page_fill D selector v (page w))"
proof -
  obtain r p' where pf: "page_fill D selector v (page w) = (r, p')"
    by (cases "page_fill D selector v (page w)")
  show ?thesis
    unfolding fill_cases [OF pf]
    by (simp add: pf end_span_def set_attribute_def set_status_def attribute_def
         redact_if_needed_def REDACTED_def)
qed

theorem fill_records_redacted_passes_original_witness:
  "attribute (last (finished (snd (fill mock_page mock_tracer None ''input#password'' ''secret123'' False mock_world))))
      ''test.action.input_value'' = Some (AStr ''[REDACTED]'')
   \<and> calls (snd (fill mock_page mock_tracer None ''input#password'' ''secret123'' False mock_world))
      = calls mock_world @ [FillCall ''input#password'' ''secret123'']
   \<and> attribute (last (finished (snd (fill mock_page mock_tracer None ''input#email'' ''test@example.com'' False mock_world))))
      ''test.action.input_value'' = Some (AStr ''test@example.com'')"
proof -
  have a: "redact_if_needed ''secret123'' ''input#password'' False = ''[REDACTED]''"
    by code_simp
  have b: "redact_if_needed ''test@example.com'' ''input#email'' False = ''test@example.com''"
    by code_simp
  from fill_records_redacted_passes_original [of mock_page mock_tracer None "''input#password''" "''secret123''" False mock_world]
       fill_records_redacted_passes_original [of mock_page mock_tracer None "''input#email''" "''test@example.com''" False mock_world]
  show ?thesis unfolding a b by blast
qed

text \<open>
  C5. When the element is found and its text read, \<open>assert_text\<close> succeeds exactly when
  the lower-cased expected string occurs in the lower-cased text. On success the span
  gets \<open>test.action.result = success\<close> and status OK. On mismatch it gets
  \<open>test.action.result = failed\<close> and status error with the message
  \<open>Expected '<expected>' in '<actual>'\<close>, and an \<open>AssertionError\<close> with the same message is
  raised. The span is ended once either way.
\<close>

theorem assert_text_outcome:
  assumes "page_wait_for_selector D selector (page w) = (Inr element, p1)"
      and "element_text_content D element p1 = (Inr text, p2)"
  shows "(if (\<exists>pre post. lower text = pre @ lower expected @ post)
          then fst (assert_text D tr c selector expected w) = Inr ()
             \<and> attribute (last (finished (snd (assert_text D tr c selector expected w))))
                  ''test.action.result'' = Some (AStr ''success'')
             \<and> statuses (last (finished (snd (assert_text D tr c selector expected w)))) = [(OK, None)]
          else fst (assert_text D tr c selector expected w)
                 = Inl (Exn ''AssertionError''
                     (''Expected '' @ [CHR 0x27] @ expected @ [CHR 0x27] @ '' in '' @ [CHR 0x27] @ text @ [CHR 0x27]))
             \<and> attribute (last (finished (snd (assert_text D tr c selector expected w))))
                  ''test.action.result'' = Some (AStr ''failed'')
             \<and> statuses (last (finished (snd (assert_text D tr c selector expected w))))
                 = [(ERROR, Some (''Expected '' @ [CHR 0x27] @ expected @ [CHR 0x27] @ '' in ''
                      @ [CHR 0x27] @ text @ [CHR 0x27]))])
        \<and> ends (last (finished (snd (assert_text D tr c selector expected w)))) = 1"
proof -
  have cond: "str_in (lower expected) (lower text) \<longleftrightarrow> (\<exists>pre post. lower text = pre @ lower expected @ post)"
    by (simp add: str_in_def sublist_def)
  show ?thesis
  proof (cases "str_in (lower expected) (lower text)")
    case True
    with assms have "assert_text D tr c selector expected w =
      (Inr (), end_span (set_status (set_attribute
                 (set_attribute (fst (action_span tr c ''assert_text'' (Some selector) [] w))
                    ''test.action.page_url'' (AStr (page_url D (page w))))
                 ''test.action.result'' (AStr ''success'')) OK None)
         (snd (text_content D element (snd (wait_for_selector D selector (snd (action_span tr c ''assert_text'' (Some selector) [] w)))))))"
      by (simp add: assert_text_def with_span_def action_span_def start_span_def
            wait_for_selector_def text_content_def Let_def)
    with True cond show ?thesis
      by (simp add: end_span_def set_status_def set_attribute_def attribute_def action_span_def start_span_def)
  next
    case False
    with assms have "assert_text D tr c selector expected w =
      (Inl (Exn ''AssertionError'' (assert_text_message expected text)),
       end_span (set_status (set_attribute
                 (set_attribute (fst (action_span tr c ''assert_text'' (Some selector) [] w))
                    ''test.action.page_url'' (AStr (page_url D (page w))))
                 ''test.action.result'' (AStr ''failed'')) ERROR (Some (assert_text_message expected text)))
         (snd (text_content D element (snd (wait_for_selector D selector (snd (action_span tr c ''assert_text'' (Some selector) [] w)))))))"
      by (simp add: assert_text_def with_span_def action_span_def start_span_def
            wait_for_selector_def text_content_def Let_def)
    with False cond show ?thesis
      by (simp add: end_span_def set_status_def set_attribute_def attribute_def action_span_def start_span_def
            assert_text_message_def sq_def)
  qed
qed

theorem assert_text_outcome_witness:
  "fst (assert_text mock_page mock_tracer None ''h1'' ''Hello'' mock_world) = Inr ()
   \<and> fst (assert_text mock_page mock_tracer None ''h1'' ''Missing'' mock_world)
       = Inl (Exn ''AssertionError'' (''Expected '' @ [CHR 0x27] @ ''Missing'' @ [CHR 0x27] @ '' in ''
               @ [CHR 0x27] @ ''Hello World'' @ [CHR 0x27]))"
proof -
  have ws: "page_wait_for_selector mock_page ''h1'' (page mock_world) = (Inr (), page mock_world)"
    by (simp add: mock_page_def)
  have tc: "element_text_content mock_page () (page mock_world) = (Inr ''Hello World'', page mock_world)"
    by (simp add: mock_page_def)
  have "sublist (lower ''Hello'') (lower ''Hello World'')" by code_simp
  then have yes: "\<exists>pre post. lower ''Hello World'' = pre @ lower ''Hello'' @ post"
    by (simp add: sublist_def)
  have "\<not> sublist (lower ''Missing'') (lower ''Hello World'')" by code_simp
  then have no: "\<not> (\<exists>pre post. lower ''Hello World'' = pre @ lower ''Missing'' @ post)"
    by (simp add: sublist_def)
  from assert_text_outcome [OF ws tc, of "''Hello''" mock_tracer None] yes
       assert_text_outcome [OF ws tc, of "''Missing''" mock_tracer None] no
  show ?thesis by simp
qed

end
